theory Spec2Isabelle
  imports Main "HOL-Library.Word" "HOL-Library.Monad_Syntax"
begin

unbundle bit_operations_syntax

section \<open>Machine types, failures and configuration\<close>

text \<open>
  Go's \<open>int\<close> and \<open>time.Duration\<close> are 64-bit two's complement integers on the
  platforms the program targets: both are modelled as \<open>64 word\<close>, read with \<open>sint\<close>.
  A Go \<open>string\<close> is a sequence of bytes, which is what \<^typ>\<open>string\<close> is.
\<close>

type_synonym go_int = "64 word"
type_synonym Duration = "64 word"

text \<open>Errors returned by the program's functions, and the panics of the library calls
  it makes. A function that returns an error value returns \<open>go_error + 'a\<close>, one
  that can only panic \<open>go_panic + 'a\<close>, and one that can do both \<open>fault + 'a\<close>.\<close>

datatype go_error =
    InvalidResponseFormat
  | InvalidChallengeFormat
  | InvalidTimestampFormat
  | InvalidDifficultyValue
  | ReadFailed
  | WriteFailed
  | ContextDone

datatype go_panic = NegativeRepeatCount | InvalidArgumentToIntn

datatype fault = Err go_error | Panic go_panic

datatype level = Debug | Info | Warn | Error

type_synonym log_entry = "level \<times> string"

record ServerConfig =
  Host :: string
  Port :: go_int
  MaxConnections :: go_int
  ConnectionTimeout :: Duration
  TimeWindow :: Duration
  MinDifficulty :: go_int
  MaxDifficulty :: go_int

record ClientConfig =
  ServerAddress :: string
  ClientConnectionTimeout :: Duration
  MaxNonce :: go_int

section \<open>The library functions the program calls\<close>

subsection \<open>Package strings\<close>

definition HasPrefix :: "string \<Rightarrow> string \<Rightarrow> bool" where
  "HasPrefix s p = (length p \<le> length s \<and> take (length p) s = p)"

definition TrimPrefix :: "string \<Rightarrow> string \<Rightarrow> string" where
  "TrimPrefix s p = (if HasPrefix s p then drop (length p) s else s)"

text \<open>\<open>strings.Repeat\<close> panics on a negative count. (Running out of memory on an
  astronomically large count is outside the model.)\<close>

definition Repeat :: "string \<Rightarrow> go_int \<Rightarrow> go_panic + string" where
  "Repeat s count =
     (if sint count < 0 then Inl NegativeRepeatCount
      else Inr (concat (replicate (nat (sint count)) s)))"

text \<open>\<open>strings.Split\<close> with a one-byte separator, the only way the program calls it:
  the pieces between the separators, \<open>n + 1\<close> pieces for \<open>n\<close> separators.\<close>

fun Split :: "string \<Rightarrow> char \<Rightarrow> string list" where
  "Split [] sep = [[]]"
| "Split (c # cs) sep =
     (if c = sep then [] # Split cs sep
      else (case Split cs sep of p # ps \<Rightarrow> (c # p) # ps | [] \<Rightarrow> [[c]]))"

text \<open>
  \<open>strings.TrimSpace\<close> removes the leading and trailing white space as Unicode defines
  it. On the UTF-8 bytes of a Go string these are the six ASCII characters
  \<open>\t \n \v \f \r\<close> and space, and the encodings of U+0085, U+00A0, U+1680,
  U+2000 to U+200A, U+2028, U+2029, U+202F, U+205F and U+3000.
\<close>

definition spaces :: "string list" where
  "spaces =
     [[CHR 0x09], [CHR 0x0A], [CHR 0x0B], [CHR 0x0C], [CHR 0x0D], [CHR 0x20],
      [CHR 0xC2, CHR 0x85], [CHR 0xC2, CHR 0xA0], [CHR 0xE1, CHR 0x9A, CHR 0x80],
      [CHR 0xE2, CHR 0x80, CHR 0x80], [CHR 0xE2, CHR 0x80, CHR 0x81],
      [CHR 0xE2, CHR 0x80, CHR 0x82], [CHR 0xE2, CHR 0x80, CHR 0x83],
      [CHR 0xE2, CHR 0x80, CHR 0x84], [CHR 0xE2, CHR 0x80, CHR 0x85],
      [CHR 0xE2, CHR 0x80, CHR 0x86], [CHR 0xE2, CHR 0x80, CHR 0x87],
      [CHR 0xE2, CHR 0x80, CHR 0x88], [CHR 0xE2, CHR 0x80, CHR 0x89],
      [CHR 0xE2, CHR 0x80, CHR 0x8A], [CHR 0xE2, CHR 0x80, CHR 0xA8],
      [CHR 0xE2, CHR 0x80, CHR 0xA9], [CHR 0xE2, CHR 0x80, CHR 0xAF],
      [CHR 0xE2, CHR 0x81, CHR 0x9F], [CHR 0xE3, CHR 0x80, CHR 0x80]]"

text \<open>Remove leading tokens; each token has at least one byte, so as many rounds as
  the string has bytes are enough.\<close>

fun stripLeading :: "string list \<Rightarrow> nat \<Rightarrow> string \<Rightarrow> string" where
  "stripLeading toks 0 s = s"
| "stripLeading toks (Suc n) s =
     (case find (\<lambda>t. t \<noteq> [] \<and> HasPrefix s t) toks of
        None \<Rightarrow> s
      | Some t \<Rightarrow> stripLeading toks n (drop (length t) s))"

definition TrimLeftSpace :: "string \<Rightarrow> string" where
  "TrimLeftSpace s = stripLeading spaces (length s) s"

definition TrimRightSpace :: "string \<Rightarrow> string" where
  "TrimRightSpace s = rev (stripLeading (map rev spaces) (length s) (rev s))"

definition TrimSpace :: "string \<Rightarrow> string" where
  "TrimSpace s = TrimRightSpace (TrimLeftSpace s)"

subsection \<open>Decimal numbers: \<open>%d\<close>, \<open>strconv.Itoa\<close> and \<open>strconv.Atoi\<close>\<close>

definition isDigit :: "char \<Rightarrow> bool" where
  "isDigit c = (48 \<le> (of_char c :: int) \<and> (of_char c :: int) \<le> 57)"

definition digitVal :: "char \<Rightarrow> int" where
  "digitVal c = of_char c - 48"

definition digitChar :: "int \<Rightarrow> char" where
  "digitChar d = char_of (48 + d)"

text \<open>The decimal digits of a number that is not negative.\<close>

function digits :: "int \<Rightarrow> string" where
  "digits n = (if n < 10 then [digitChar n] else digits (n div 10) @ [digitChar (n mod 10)])"
  by pat_completeness auto
termination
  by (relation "measure nat") auto

declare digits.simps [simp del]

definition fromDigits :: "string \<Rightarrow> int" where
  "fromDigits s = foldl (\<lambda>n c. 10 * n + digitVal c) 0 s"

text \<open>\<open>strconv.Itoa\<close>, which is also what the verb \<open>%d\<close> prints for an \<open>int\<close>.\<close>

definition Itoa :: "go_int \<Rightarrow> string" where
  "Itoa x = (if sint x < 0 then CHR ''-'' # digits (- sint x) else digits (sint x))"

text \<open>\<open>strconv.Atoi\<close>: an optional sign, then one or more decimal digits, and the value
  must fit in 64 bits; anything else is an error.\<close>

definition Atoi :: "string \<Rightarrow> go_int option" where
  "Atoi s =
     (let neg = (s \<noteq> [] \<and> hd s = CHR ''-'');
          ds = (if s \<noteq> [] \<and> (hd s = CHR ''-'' \<or> hd s = CHR ''+'') then tl s else s)
      in if ds = [] \<or> \<not> list_all isDigit ds then None
         else let v = (if neg then - fromDigits ds else fromDigits ds)
              in if - (2 ^ 63) \<le> v \<and> v < 2 ^ 63 then Some (word_of_int v) else None)"

subsection \<open>Package time\<close>

text \<open>
  A \<open>time.Time\<close> is an instant and a location. The instant is counted here in
  nanoseconds since 0001-01-01T00:00:00Z (Go's zero time); of the location only the offset
  from UTC in seconds matters to the program, since it decides how the time is printed.
  \<open>time.Now().UTC()\<close> has offset 0.
\<close>

record Time =
  instant :: int
  zone :: int

definition maxDuration :: int where
  "maxDuration = 2 ^ 63 - 1"

definition minDuration :: int where
  "minDuration = - (2 ^ 63)"

text \<open>\<open>Time.Sub\<close>: the difference as a \<open>Duration\<close>, which is a 64-bit count of
  nanoseconds; a difference out of its range is replaced by the largest or smallest
  duration. \<open>time.Since t\<close> is \<open>time.Now().Sub(t)\<close>; the clock is an explicit input.\<close>

definition Sub :: "Time \<Rightarrow> Time \<Rightarrow> Duration" where
  "Sub t u =
     (let d = instant t - instant u
      in if d > maxDuration then word_of_int maxDuration
         else if d < minDuration then word_of_int minDuration
         else word_of_int d)"

definition Since :: "Time \<Rightarrow> Time \<Rightarrow> Duration" where
  "Since now t = Sub now t"

definition isLeap :: "int \<Rightarrow> bool" where
  "isLeap year = (year mod 4 = 0 \<and> (year mod 100 \<noteq> 0 \<or> year mod 400 = 0))"

definition daysBefore :: "int list" where
  "daysBefore = [0, 31, 59, 90, 120, 151, 181, 212, 243, 273, 304, 334, 365]"

definition daysIn :: "int \<Rightarrow> int \<Rightarrow> int" where
  "daysIn month year =
     (if month = 2 \<and> isLeap year then 29
      else daysBefore ! nat month - daysBefore ! nat (month - 1))"

text \<open>The days from 0001-01-01 to the first day of a year of the proleptic Gregorian
  calendar.\<close>

definition daysSinceEpoch :: "int \<Rightarrow> int" where
  "daysSinceEpoch year =
     (let y = year - 1 in 365 * y + y div 4 - y div 100 + y div 400)"

text \<open>\<open>time.Date\<close> in UTC, for fields that are in range.\<close>

definition Date :: "int \<Rightarrow> int \<Rightarrow> int \<Rightarrow> int \<Rightarrow> int \<Rightarrow> int \<Rightarrow> int \<Rightarrow> int" where
  "Date year month day hour minute sec nsec =
     (let d = daysSinceEpoch year + daysBefore ! nat (month - 1)
              + (if isLeap year \<and> 3 \<le> month then 1 else 0) + day - 1
      in (d * 86400 + hour * 3600 + minute * 60 + sec) * 1000000000 + nsec)"

text \<open>\<open>absDate\<close>: year, month and day of a day count, by cycles of 400, 100, 4 and 1
  years as the library does it.\<close>

definition absDate :: "int \<Rightarrow> int \<times> int \<times> int" where
  "absDate days =
     (let n400 = days div 146097;
          d1 = days - 146097 * n400;
          c = d1 div 36524;
          n100 = c - c div 4;
          d2 = d1 - 36524 * n100;
          n4 = d2 div 1461;
          d3 = d2 - 1461 * n4;
          q = d3 div 365;
          n1 = q - q div 4;
          yday = d3 - 365 * n1;
          year = 400 * n400 + 100 * n100 + 4 * n4 + n1 + 1
      in if isLeap year \<and> yday = 59 then (year, 2, 29)
         else let day = (if isLeap year \<and> yday > 59 then yday - 1 else yday);
                  m = day div 31;
                  e = daysBefore ! nat (m + 1)
              in if day \<ge> e then (year, m + 2, day - e + 1)
                 else (year, m + 1, day - daysBefore ! nat m + 1))"

definition appendInt :: "int \<Rightarrow> nat \<Rightarrow> string" where
  "appendInt x width =
     (let ds = digits \<bar>x\<bar>
      in (if x < 0 then ''-'' else []) @ replicate (width - length ds) (CHR ''0'') @ ds)"

text \<open>The fractional second of the layout \<open>.999999999\<close>: nine digits with the
  trailing zeros removed, and nothing at all for a whole second.\<close>

definition appendNano :: "int \<Rightarrow> string" where
  "appendNano ns =
     (if ns = 0 then []
      else CHR ''.'' # rev (dropWhile (\<lambda>c. c = CHR ''0'') (rev (appendInt ns 9))))"

definition appendZone :: "int \<Rightarrow> string" where
  "appendZone offset =
     (if offset = 0 then ''Z''
      else let m = \<bar>offset\<bar> div 60
           in (if offset \<le> - 60 then ''-'' else ''+'')
              @ appendInt (m div 60) 2 @ '':'' @ appendInt (m mod 60) 2)"

text \<open>\<open>t.Format(time.RFC3339Nano)\<close>.\<close>

definition FormatRFC3339Nano :: "Time \<Rightarrow> string" where
  "FormatRFC3339Nano t =
     (let abs = instant t + zone t * 1000000000;
          secs = (abs div 1000000000) mod 86400
      in case absDate (abs div 86400000000000) of (year, month, day) \<Rightarrow>
           appendInt year 4 @ ''-'' @ appendInt month 2 @ ''-'' @ appendInt day 2
           @ ''T'' @ appendInt (secs div 3600) 2 @ '':'' @ appendInt (secs mod 3600 div 60) 2
           @ '':'' @ appendInt (secs mod 60) 2
           @ appendNano (abs mod 1000000000) @ appendZone (zone t))"

text \<open>
  \<open>time.Parse(time.RFC3339Nano, value)\<close>, that is the library's parser run on the layout
  \<open>2006-01-02T15:04:05.999999999Z07:00\<close>: a four-digit year, two-digit month and day, an
  hour of one or two digits, two-digit minute and second, an optional fraction after a
  period or a comma of which nine digits count, and then \<open>Z\<close> or a signed offset
  \<open>hh:mm\<close>. Every failure of the library is \<open>None\<close> here.
\<close>

fun getnum :: "string \<Rightarrow> bool \<Rightarrow> (int \<times> string) option" where
  "getnum (a # b # r) fixed =
     (if \<not> isDigit a then None
      else if isDigit b then Some (digitVal a * 10 + digitVal b, r)
      else if fixed then None else Some (digitVal a, b # r))"
| "getnum [a] fixed = (if \<not> isDigit a \<or> fixed then None else Some (digitVal a, []))"
| "getnum [] fixed = None"

fun skip :: "string \<Rightarrow> char \<Rightarrow> string option" where
  "skip (c # r) p = (if c = p then Some r else None)"
| "skip [] p = None"

definition check :: "bool \<Rightarrow> unit option" where
  "check b = (if b then Some () else None)"

definition commaOrPeriod :: "char \<Rightarrow> bool" where
  "commaOrPeriod c = (c = CHR ''.'' \<or> c = CHR '','')"

definition parseNanoseconds :: "string \<Rightarrow> int" where
  "parseNanoseconds ds = (let d9 = take 9 ds in fromDigits d9 * 10 ^ (9 - length d9))"

definition parseFraction :: "string \<Rightarrow> int \<times> string" where
  "parseFraction v =
     (if 2 \<le> length v \<and> commaOrPeriod (v ! 0) \<and> isDigit (v ! 1)
      then (parseNanoseconds (takeWhile isDigit (tl v)), dropWhile isDigit (tl v))
      else (0, v))"

definition parseZone :: "string \<Rightarrow> (int \<times> string) option" where
  "parseZone v =
     (if v \<noteq> [] \<and> hd v = CHR ''Z'' then Some (0, tl v)
      else if length v < 6 \<or> v ! 3 \<noteq> CHR '':'' then None
      else do {
        (hr, r1) \<leftarrow> getnum (take 2 (drop 1 v)) True;
        (mm, r2) \<leftarrow> getnum (take 2 (drop 4 v)) True;
        check (hr \<le> 24 \<and> mm \<le> 60);
        check (v ! 0 = CHR ''+'' \<or> v ! 0 = CHR ''-'');
        Some (if v ! 0 = CHR ''-'' then - ((hr * 60 + mm) * 60) else (hr * 60 + mm) * 60,
              drop 6 v)
      })"

definition ParseRFC3339Nano :: "string \<Rightarrow> Time option" where
  "ParseRFC3339Nano v =
     (if length v < 4 \<or> \<not> list_all isDigit (take 4 v) then None
      else do {
        v1 \<leftarrow> skip (drop 4 v) (CHR ''-'');
        (month, v2) \<leftarrow> getnum v1 True;
        check (1 \<le> month \<and> month \<le> 12);
        v3 \<leftarrow> skip v2 (CHR ''-'');
        (day, v4) \<leftarrow> getnum v3 True;
        v5 \<leftarrow> skip v4 (CHR ''T'');
        (hour, v6) \<leftarrow> getnum v5 False;
        check (hour < 24);
        v7 \<leftarrow> skip v6 (CHR '':'');
        (minute, v8) \<leftarrow> getnum v7 True;
        check (minute < 60);
        v9 \<leftarrow> skip v8 (CHR '':'');
        (sec, v10) \<leftarrow> getnum v9 True;
        check (sec < 60);
        (offset, v12) \<leftarrow> parseZone (snd (parseFraction v10));
        check (v12 = []);
        check (1 \<le> day \<and> day \<le> daysIn month (fromDigits (take 4 v)));
        Some \<lparr>instant = Date (fromDigits (take 4 v)) month day hour minute sec
                             (fst (parseFraction v10))
                           - offset * 1000000000,
              zone = offset\<rparr>
      })"

subsection \<open>Packages crypto/sha256 and encoding/hex\<close>

text \<open>
  SHA-256 as FIPS 180-4 defines it. A 32-bit word is the list of its 32 bits, least
  significant bit first, which keeps every operation a short list recursion; a byte is a
  \<^typ>\<open>char\<close>, whose constructor lists its bits from the least significant.
\<close>

type_synonym bits = "bool list"

fun addc :: "bool \<Rightarrow> bits \<Rightarrow> bits \<Rightarrow> bits" where
  "addc c (x # xs) (y # ys) = ((x \<noteq> y) \<noteq> c) # addc ((x \<and> y) \<or> (c \<and> (x \<noteq> y))) xs ys"
| "addc c _ _ = []"

definition add32 :: "bits \<Rightarrow> bits \<Rightarrow> bits" where
  "add32 x y = addc False x y"

definition xor32 :: "bits \<Rightarrow> bits \<Rightarrow> bits" where
  "xor32 x y = map2 (\<noteq>) x y"

definition and32 :: "bits \<Rightarrow> bits \<Rightarrow> bits" where
  "and32 x y = map2 (\<and>) x y"

definition not32 :: "bits \<Rightarrow> bits" where
  "not32 x = map Not x"

definition rotr :: "nat \<Rightarrow> bits \<Rightarrow> bits" where
  "rotr n x = drop n x @ take n x"

definition shr :: "nat \<Rightarrow> bits \<Rightarrow> bits" where
  "shr n x = drop n x @ replicate n False"

definition nibbles :: "(char \<times> bits) list" where
  "nibbles =
    [(CHR ''0'', [False, False, False, False]), (CHR ''1'', [True, False, False, False]),
     (CHR ''2'', [False, True, False, False]), (CHR ''3'', [True, True, False, False]),
     (CHR ''4'', [False, False, True, False]), (CHR ''5'', [True, False, True, False]),
     (CHR ''6'', [False, True, True, False]), (CHR ''7'', [True, True, True, False]),
     (CHR ''8'', [False, False, False, True]), (CHR ''9'', [True, False, False, True]),
     (CHR ''a'', [False, True, False, True]), (CHR ''b'', [True, True, False, True]),
     (CHR ''c'', [False, False, True, True]), (CHR ''d'', [True, False, True, True]),
     (CHR ''e'', [False, True, True, True]), (CHR ''f'', [True, True, True, True])]"

text \<open>The word written as eight hexadecimal digits.\<close>

definition hexWord :: "string \<Rightarrow> bits" where
  "hexWord s = concat (map (\<lambda>c. case map_of nibbles c of Some b \<Rightarrow> b | None \<Rightarrow> []) (rev s))"

definition K256 :: "bits list" where
  "K256 = map hexWord
    [''428a2f98'', ''71374491'', ''b5c0fbcf'', ''e9b5dba5'', ''3956c25b'', ''59f111f1'',
     ''923f82a4'', ''ab1c5ed5'', ''d807aa98'', ''12835b01'', ''243185be'', ''550c7dc3'',
     ''72be5d74'', ''80deb1fe'', ''9bdc06a7'', ''c19bf174'', ''e49b69c1'', ''efbe4786'',
     ''0fc19dc6'', ''240ca1cc'', ''2de92c6f'', ''4a7484aa'', ''5cb0a9dc'', ''76f988da'',
     ''983e5152'', ''a831c66d'', ''b00327c8'', ''bf597fc7'', ''c6e00bf3'', ''d5a79147'',
     ''06ca6351'', ''14292967'', ''27b70a85'', ''2e1b2138'', ''4d2c6dfc'', ''53380d13'',
     ''650a7354'', ''766a0abb'', ''81c2c92e'', ''92722c85'', ''a2bfe8a1'', ''a81a664b'',
     ''c24b8b70'', ''c76c51a3'', ''d192e819'', ''d6990624'', ''f40e3585'', ''106aa070'',
     ''19a4c116'', ''1e376c08'', ''2748774c'', ''34b0bcb5'', ''391c0cb3'', ''4ed8aa4a'',
     ''5b9cca4f'', ''682e6ff3'', ''748f82ee'', ''78a5636f'', ''84c87814'', ''8cc70208'',
     ''90befffa'', ''a4506ceb'', ''bef9a3f7'', ''c67178f2'']"

definition init256 :: "bits list" where
  "init256 = map hexWord
    [''6a09e667'', ''bb67ae85'', ''3c6ef372'', ''a54ff53a'',
     ''510e527f'', ''9b05688c'', ''1f83d9ab'', ''5be0cd19'']"

definition ssig0 :: "bits \<Rightarrow> bits" where
  "ssig0 x = xor32 (xor32 (rotr 7 x) (rotr 18 x)) (shr 3 x)"

definition ssig1 :: "bits \<Rightarrow> bits" where
  "ssig1 x = xor32 (xor32 (rotr 17 x) (rotr 19 x)) (shr 10 x)"

definition bsig0 :: "bits \<Rightarrow> bits" where
  "bsig0 x = xor32 (xor32 (rotr 2 x) (rotr 13 x)) (rotr 22 x)"

definition bsig1 :: "bits \<Rightarrow> bits" where
  "bsig1 x = xor32 (xor32 (rotr 6 x) (rotr 11 x)) (rotr 25 x)"

definition ch :: "bits \<Rightarrow> bits \<Rightarrow> bits \<Rightarrow> bits" where
  "ch x y z = xor32 (and32 x y) (and32 (not32 x) z)"

definition maj :: "bits \<Rightarrow> bits \<Rightarrow> bits \<Rightarrow> bits" where
  "maj x y z = xor32 (xor32 (and32 x y) (and32 x z)) (and32 y z)"

text \<open>The 64 rounds on one block. \<open>w\<close> holds the sixteen most recent words of the
  message schedule, the word of the current round first.\<close>

fun rounds :: "bits list \<Rightarrow> bits list \<Rightarrow> bits list \<Rightarrow> bits list" where
  "rounds [] w st = st"
| "rounds (k # ks) w [a, b, c, d, e, f, g, h] =
     (let t1 = add32 (add32 (add32 (add32 h (bsig1 e)) (ch e f g)) k) (hd w);
          t2 = add32 (bsig0 a) (maj a b c);
          wn = add32 (add32 (add32 (ssig1 (w ! 14)) (w ! 9)) (ssig0 (w ! 1))) (w ! 0)
      in rounds ks (tl w @ [wn]) [add32 t1 t2, a, b, c, add32 d t1, e, f, g])"
| "rounds (k # ks) w st = st"

fun byteBits :: "char \<Rightarrow> bits" where
  "byteBits (Char b0 b1 b2 b3 b4 b5 b6 b7) = [b0, b1, b2, b3, b4, b5, b6, b7]"

fun bigEndianWords :: "string \<Rightarrow> bits list" where
  "bigEndianWords (a # b # c # d # r) =
     (byteBits d @ byteBits c @ byteBits b @ byteBits a) # bigEndianWords r"
| "bigEndianWords _ = []"

definition block :: "bits list \<Rightarrow> string \<Rightarrow> bits list" where
  "block st bs = map2 add32 st (rounds K256 (bigEndianWords bs) st)"

fun blocks :: "nat \<Rightarrow> bits list \<Rightarrow> string \<Rightarrow> bits list" where
  "blocks 0 st bs = st"
| "blocks (Suc n) st bs = blocks n (block st (take 64 bs)) (drop 64 bs)"

fun inc :: "bits \<Rightarrow> bits" where
  "inc [] = []"
| "inc (False # xs) = True # xs"
| "inc (True # xs) = False # inc xs"

fun bigEndianBytes :: "bits \<Rightarrow> string" where
  "bigEndianBytes (b0 # b1 # b2 # b3 # b4 # b5 # b6 # b7 # r) =
     bigEndianBytes r @ [Char b0 b1 b2 b3 b4 b5 b6 b7]"
| "bigEndianBytes _ = []"

text \<open>The length of the message in bits, as eight bytes: the number of bytes counted
  in binary and shifted left by three.\<close>

definition bitLength :: "string \<Rightarrow> string" where
  "bitLength m =
     bigEndianBytes (take 64 ([False, False, False] @ fold (\<lambda>_. inc) m (replicate 64 False)))"

definition pad :: "string \<Rightarrow> string" where
  "pad m = m @ [CHR 0x80] @ replicate ((119 - length m mod 64) mod 64) (CHR 0x00) @ bitLength m"

definition Sum256 :: "string \<Rightarrow> string" where
  "Sum256 data =
     (let p = pad data
      in concat (map bigEndianBytes (blocks (length p div 64) init256 p)))"

text \<open>\<open>hex.EncodeToString\<close>: two lower-case hexadecimal digits for each byte.\<close>

definition hextable :: string where
  "hextable = ''0123456789abcdef''"

definition EncodeToString :: "string \<Rightarrow> string" where
  "EncodeToString src =
     concat (map (\<lambda>c. [hextable ! nat (of_char c div 16), hextable ! nat (of_char c mod 16)]) src)"

section \<open>The server (cmd/server/server.go)\<close>

text \<open>The server value: its configuration, the quotes and the load counter. The
  listener, the mutex and the logger are effects: what is written to a connection and
  what is logged are results of the functions below.\<close>

record WordOfWisdomServer =
  config :: ServerConfig
  quotes :: "string list"
  clientLoad :: go_int

definition letters :: string where
  "letters = ''abcdefghijklmnopqrstuvwxyzABCDEFGHIJKLMNOPQRSTUVWXYZ0123456789''"

definition maxDifficultyClientCount :: int where
  "maxDifficultyClientCount = 50"

definition minDifficultyClientCount :: int where
  "minDifficultyClientCount = 20"

definition NewServer :: "ServerConfig \<Rightarrow> WordOfWisdomServer" where
  "NewServer cfg =
     \<lparr>config = cfg,
      quotes =
        [''The only true wisdom is in knowing you know nothing. - Socrates'',
         ''The journey of a thousand miles begins with one step. - Lao Tzu'',
         ''That which does not kill us makes us stronger. - Friedrich Nietzsche'',
         ''Life is what happens when you'' @ [CHR 0xE2, CHR 0x80, CHR 0x99]
           @ ''re busy making other plans. - John Lennon'',
         ''When the going gets tough, the tough get going. - Joe Kennedy''],
      clientLoad = 0\<rparr>"

definition incrementClientLoad :: "WordOfWisdomServer \<Rightarrow> WordOfWisdomServer" where
  "incrementClientLoad s = s\<lparr>clientLoad := clientLoad s + 1\<rparr>"

definition decrementClientLoad :: "WordOfWisdomServer \<Rightarrow> WordOfWisdomServer" where
  "decrementClientLoad s = s\<lparr>clientLoad := clientLoad s - 1\<rparr>"

definition adjustDifficulty :: "WordOfWisdomServer \<Rightarrow> go_int" where
  "adjustDifficulty s =
     (if sint (clientLoad s) > maxDifficultyClientCount then MaxDifficulty (config s)
      else if sint (clientLoad s) > minDifficultyClientCount then MaxDifficulty (config s) - 1
      else MinDifficulty (config s))"

text \<open>\<open>generateChallenge\<close>: 64 letters, the \<open>i\<close>-th chosen by the \<open>i\<close>-th value
  \<open>r.Intn(len(runes))\<close> of the random generator, which is an input here.\<close>

definition generateChallenge :: "(nat \<Rightarrow> nat) \<Rightarrow> string" where
  "generateChallenge draw = map (\<lambda>i. letters ! (draw i mod length letters)) [0..<64]"

text \<open>The three \<open>send\<close> functions build one line and hand it to \<open>conn.Write\<close>; the
  model returns the line, and whether the write succeeded is an input of the session.\<close>

definition sendChallenge :: "string \<Rightarrow> Time \<Rightarrow> go_int \<Rightarrow> string" where
  "sendChallenge challenge timestamp difficulty =
     ''Challenge:'' @ challenge @ '';Timestamp:'' @ FormatRFC3339Nano timestamp
     @ '';Difficulty:'' @ Itoa difficulty @ [CHR 0x0A]"

definition sendQuote :: "string \<Rightarrow> string" where
  "sendQuote quote = ''Quote:'' @ quote @ [CHR 0x0A]"

definition sendError :: "string \<Rightarrow> string" where
  "sendError errorMessage = ''Error:'' @ errorMessage @ [CHR 0x0A]"

definition parseResponse :: "string \<Rightarrow> go_error + (string \<times> Time)" where
  "parseResponse response =
     (let parts = Split response (CHR '';'')
      in if length parts \<noteq> 2 then Inl InvalidResponseFormat
         else let nonce = TrimPrefix (parts ! 0) ''Nonce:'';
                  timestampStr = TrimPrefix (parts ! 1) ''Timestamp:''
              in case ParseRFC3339Nano timestampStr of
                   None \<Rightarrow> Inl InvalidTimestampFormat
                 | Some timestamp \<Rightarrow> Inr (nonce, timestamp))"

text \<open>\<open>receiveResponse\<close>: one \<open>conn.Read\<close> into a buffer of 4096 bytes, which fails
  (\<open>None\<close>) or returns the bytes that arrived.\<close>

definition receiveResponse :: "string option \<Rightarrow> go_error + (string \<times> Time)" where
  "receiveResponse input =
     (case input of
        None \<Rightarrow> Inl ReadFailed
      | Some buffer \<Rightarrow> parseResponse (TrimSpace buffer))"

text \<open>\<open>verifyPoW\<close>, with the clock reading of \<open>time.Since\<close> as the argument \<open>now\<close>.
  It returns what it logged and its result.\<close>

definition verifyPoW ::
  "WordOfWisdomServer \<Rightarrow> Time \<Rightarrow> string \<Rightarrow> string \<Rightarrow> Time \<Rightarrow> Time \<Rightarrow> go_int
     \<Rightarrow> log_entry list \<times> (go_panic + bool)" where
  "verifyPoW s now challenge nonce clientTimestamp serverTimestamp difficulty =
     (if sint (Since now clientTimestamp) > sint (TimeWindow (config s))
      then ([(Warn, ''Timestamp expired'')], Inr False)
      else let data = challenge @ nonce @ FormatRFC3339Nano serverTimestamp;
               hashHex = EncodeToString (Sum256 data)
           in ([(Debug, ''Verifying PoW''), (Debug, ''Computed hash'')],
               case Repeat ''0'' difficulty of
                 Inl p \<Rightarrow> Inl p
               | Inr requiredPrefix \<Rightarrow> Inr (HasPrefix hashHex requiredPrefix)))"

definition getRandomQuote :: "WordOfWisdomServer \<Rightarrow> nat \<Rightarrow> go_panic + string" where
  "getRandomQuote s draw =
     (if quotes s = [] then Inl InvalidArgumentToIntn
      else Inr (quotes s ! (draw mod length (quotes s))))"

text \<open>
  What one connection brings with it: the values the random generators return, the clock
  readings, what the peer sends, whether the writes succeed, and by how much the other
  sessions change the load counter before this session reads it and after.
\<close>

record Connection =
  challengeDraws :: "nat \<Rightarrow> nat"
  quoteDraw :: nat
  issuedAt :: int
  verifiedAt :: int
  received :: "string option"
  challengeWritten :: bool
  replyWritten :: bool
  loadChangeBefore :: go_int
  loadChangeAfter :: go_int

record Outcome =
  written :: "string list"
  logged :: "log_entry list"
  panicked :: "go_panic option"
  server :: WordOfWisdomServer

definition handleConnection :: "WordOfWisdomServer \<Rightarrow> Connection \<Rightarrow> Outcome" where
  "handleConnection s conn =
     (let s1 = incrementClientLoad s;
          s2 = s1\<lparr>clientLoad := clientLoad s1 + loadChangeBefore conn\<rparr>;
          difficulty = adjustDifficulty s2;
          challenge = generateChallenge (challengeDraws conn);
          serverTimestamp = \<lparr>instant = issuedAt conn, zone = 0\<rparr>;
          s3 = s2\<lparr>clientLoad := clientLoad s2 + loadChangeAfter conn\<rparr>;
          finish = (\<lambda>w l p. \<lparr>written = w, logged = (Info, ''Accepted connection'') # l,
                             panicked = p, server = decrementClientLoad s3\<rparr>);
          message = sendChallenge challenge serverTimestamp difficulty
      in if \<not> challengeWritten conn
         then finish [message] [(Error, ''Failed to send challenge'')] None
         else case receiveResponse (received conn) of
           Inl e \<Rightarrow> finish [message] [(Error, ''Failed to receive response'')] None
         | Inr (nonce, clientTimestamp) \<Rightarrow>
             (case verifyPoW s3 \<lparr>instant = verifiedAt conn, zone = 0\<rparr> challenge nonce
                     clientTimestamp serverTimestamp difficulty of
                (l, Inl p) \<Rightarrow> finish [message] l (Some p)
              | (l, Inr True) \<Rightarrow>
                  (case getRandomQuote s3 (quoteDraw conn) of
                     Inl p \<Rightarrow> finish [message] l (Some p)
                   | Inr quote \<Rightarrow>
                       finish [message, sendQuote quote]
                         (l @ [if replyWritten conn then (Info, ''Quote sent successfully'')
                               else (Error, ''Failed to send quote'')]) None)
              | (l, Inr False) \<Rightarrow>
                  finish [message, sendError ''Invalid proof of work.'']
                    (l @ (if replyWritten conn then [] else [(Error, ''send error failed:'')])
                       @ [(Warn, ''Invalid PoW attempt'')]) None))"

section \<open>The client (cmd/client/client.go)\<close>

definition receiveChallenge :: "string option \<Rightarrow> go_error + (string \<times> Time \<times> go_int)" where
  "receiveChallenge input =
     (case input of
        None \<Rightarrow> Inl ReadFailed
      | Some buffer \<Rightarrow>
          (let message = TrimSpace buffer;
               parts = Split message (CHR '';'')
           in if length parts \<noteq> 3 then Inl InvalidChallengeFormat
              else let challenge = TrimPrefix (parts ! 0) ''Challenge:'';
                       timestampStr = TrimPrefix (parts ! 1) ''Timestamp:'';
                       difficultyStr = TrimPrefix (parts ! 2) ''Difficulty:''
                   in case ParseRFC3339Nano timestampStr of
                        None \<Rightarrow> Inl InvalidTimestampFormat
                      | Some serverTimestamp \<Rightarrow>
                          (case Atoi difficultyStr of
                             None \<Rightarrow> Inl InvalidDifficultyValue
                           | Some difficulty \<Rightarrow> Inr (challenge, serverTimestamp, difficulty))))"

text \<open>
  The loop of \<open>solvePoW\<close>. \<open>ctx k\<close> tells whether the context is done when the loop
  polls it for the \<open>k\<close>-th time; \<open>nonce\<close> is a Go \<open>int\<close>, so \<open>nonce++\<close> wraps around.
  The loop has no other exit: a run that never ends is \<open>None\<close>.
\<close>

partial_function (option) solveLoop ::
  "(nat \<Rightarrow> bool) \<Rightarrow> string \<Rightarrow> Time \<Rightarrow> string \<Rightarrow> nat \<Rightarrow> go_int \<Rightarrow> (fault + string) option" where
  "solveLoop ctx challenge serverTimestamp requiredPrefix k nonce =
     (if ctx k then Some (Inl (Err ContextDone))
      else if HasPrefix
                (EncodeToString (Sum256 (challenge @ Itoa nonce @ FormatRFC3339Nano serverTimestamp)))
                requiredPrefix
           then Some (Inr (Itoa nonce))
           else solveLoop ctx challenge serverTimestamp requiredPrefix (Suc k) (nonce + 1))"

definition solvePoW ::
  "ClientConfig \<Rightarrow> (nat \<Rightarrow> bool) \<Rightarrow> string \<Rightarrow> Time \<Rightarrow> go_int \<Rightarrow> (fault + string) option" where
  "solvePoW c ctx challenge serverTimestamp difficulty =
     (case Repeat ''0'' difficulty of
        Inl p \<Rightarrow> Some (Inl (Panic p))
      | Inr requiredPrefix \<Rightarrow> solveLoop ctx challenge serverTimestamp requiredPrefix 0 0)"

definition sendResponse :: "string \<Rightarrow> Time \<Rightarrow> string" where
  "sendResponse nonce timestamp =
     ''Nonce:'' @ nonce @ '';Timestamp:'' @ FormatRFC3339Nano timestamp @ [CHR 0x0A]"

text \<open>
  \<open>Run\<close> after the connection is made: read the challenge, solve it, send the solution
  and read the answer. The result is what was written to the connection and how the run
  ended: \<open>None\<close> for the \<open>nil\<close> error, an error, or a panic. (The client's log lines are
  left out: nothing below depends on them.)
\<close>

record Dialogue =
  challengeRead :: "string option"
  cancelled :: "nat \<Rightarrow> bool"
  solvedAt :: int
  responseWritten :: bool
  answerRead :: "string option"

definition Run :: "ClientConfig \<Rightarrow> Dialogue \<Rightarrow> (string list \<times> fault option) option" where
  "Run c d =
     (case receiveChallenge (challengeRead d) of
        Inl e \<Rightarrow> Some ([], Some (Err e))
      | Inr (challenge, serverTimestamp, difficulty) \<Rightarrow>
          (case solvePoW c (cancelled d) challenge serverTimestamp difficulty of
             None \<Rightarrow> None
           | Some (Inl f) \<Rightarrow> Some ([], Some f)
           | Some (Inr nonce) \<Rightarrow>
               (let message = sendResponse nonce \<lparr>instant = solvedAt d, zone = 0\<rparr>
                in if \<not> responseWritten d then Some ([message], Some (Err WriteFailed))
                   else case answerRead d of
                          None \<Rightarrow> Some ([message], Some (Err ReadFailed))
                        | Some answer \<Rightarrow> Some ([message], None))))"

section \<open>Notions of the specification\<close>

text \<open>The number of leading \<open>0\<close> characters of a digest, in the words of the
  specification.\<close>

definition leadingZeros :: "string \<Rightarrow> nat" where
  "leadingZeros h = length (takeWhile (\<lambda>c. c = CHR ''0'') h)"

definition alphanumeric :: "string \<Rightarrow> bool" where
  "alphanumeric s = list_all (\<lambda>c. c \<in> set letters) s"

text \<open>
  The values one session fixes when it issues its challenge, and the digest that a nonce
  gives with them. \<open>difficultyOf\<close> is the difficulty policy applied to the load counter
  as the session reads it: after its own increment and what the other sessions did before.
\<close>

definition challengeOf :: "Connection \<Rightarrow> string" where
  "challengeOf conn = generateChallenge (challengeDraws conn)"

definition issuedTime :: "Connection \<Rightarrow> Time" where
  "issuedTime conn = \<lparr>instant = issuedAt conn, zone = 0\<rparr>"

definition verifyTime :: "Connection \<Rightarrow> Time" where
  "verifyTime conn = \<lparr>instant = verifiedAt conn, zone = 0\<rparr>"

definition difficultyOf :: "WordOfWisdomServer \<Rightarrow> Connection \<Rightarrow> go_int" where
  "difficultyOf s conn =
     adjustDifficulty (s\<lparr>clientLoad := clientLoad s + 1 + loadChangeBefore conn\<rparr>)"

definition digestOf :: "Connection \<Rightarrow> string \<Rightarrow> string" where
  "digestOf conn nonce =
     EncodeToString (Sum256 (challengeOf conn @ nonce @ FormatRFC3339Nano (issuedTime conn)))"

text \<open>The strict reading of the solution frame in the specification: exactly two
  fields, the first with the prefix \<open>Nonce:\<close> and the second with \<open>Timestamp:\<close>.\<close>

definition strictSolutionFrame :: "string \<Rightarrow> bool" where
  "strictSolutionFrame r =
     (let parts = Split r (CHR '';'')
      in length parts = 2 \<and> HasPrefix (parts ! 0) ''Nonce:''
         \<and> HasPrefix (parts ! 1) ''Timestamp:'')"

section \<open>A worked example\<close>

text \<open>The configuration of the repository's README, and the challenge token that
  \<open>generateChallenge\<close> builds when the \<open>i\<close>-th random value is \<open>i\<close>.\<close>

definition readmeConfig :: ServerConfig where
  "readmeConfig =
     \<lparr>Host = ''0.0.0.0'', Port = 9999, MaxConnections = 100,
      ConnectionTimeout = 10000000000, TimeWindow = 300000000000,
      MinDifficulty = 4, MaxDifficulty = 6\<rparr>"

definition exampleToken :: string where
  "exampleToken = ''abcdefghijklmnopqrstuvwxyzABCDEFGHIJKLMNOPQRSTUVWXYZ0123456789ab''"

text \<open>A connection at load 0 whose challenge is issued at 2024-01-01T00:00:00Z and
  whose answer, the line given, is verified ten seconds later.\<close>

definition exampleConnection :: "string \<Rightarrow> Connection" where
  "exampleConnection line =
     \<lparr>challengeDraws = (\<lambda>i. i), quoteDraw = 7,
      issuedAt = 63839664000000000000, verifiedAt = 63839664010000000000,
      received = Some line, challengeWritten = True, replyWritten = True,
      loadChangeBefore = 0, loadChangeAfter = 0\<rparr>"

section \<open>Facts about the library functions\<close>

lemma sint_word_of_int_64:
  "- (2 ^ 63) \<le> x \<Longrightarrow> x < 2 ^ 63 \<Longrightarrow> sint (word_of_int x :: 64 word) = x"
  by (simp add: sint_sbintrunc' signed_take_bit_int_eq_self)

lemma sint_Sub:
  "sint (Sub t u) = max minDuration (min maxDuration (instant t - instant u))"
proof -
  let ?d = "instant t - instant u"
  have "- (2 ^ 63) \<le> ?d \<Longrightarrow> ?d < 2 ^ 63 \<Longrightarrow> sint (word_of_int ?d :: 64 word) = ?d"
    by (rule sint_word_of_int_64)
  moreover have "sint (word_of_int (2 ^ 63 - 1) :: 64 word) = 2 ^ 63 - 1"
    by (rule sint_word_of_int_64) simp_all
  moreover have "sint (word_of_int (- (2 ^ 63)) :: 64 word) = - (2 ^ 63)"
    by (rule sint_word_of_int_64) simp_all
  ultimately show ?thesis
    unfolding Sub_def Let_def maxDuration_def minDuration_def
    by (auto simp del: of_int_diff of_int_minus of_int_numeral of_int_power)
qed

lemma sint_64_range: "- (2 ^ 63) \<le> sint (x :: 64 word) \<and> sint x < 2 ^ 63"
  using sint_ge [of x] sint_lt [of x] by simp

lemma Since_exact:
  "sint w < maxDuration \<Longrightarrow>
     (sint (Since now t) \<le> sint (w :: Duration)) = (instant now - instant t \<le> sint w)"
  using sint_64_range [of w]
  by (auto simp: Since_def sint_Sub maxDuration_def minDuration_def)

lemma HasPrefix_zeros:
  "HasPrefix h (replicate n (CHR ''0'')) = (n \<le> leadingZeros h)"
proof (induction h arbitrary: n)
  case Nil
  then show ?case by (auto simp: HasPrefix_def leadingZeros_def)
next
  case (Cons c h)
  show ?case
  proof (cases n)
    case 0
    then show ?thesis by (simp add: HasPrefix_def)
  next
    case (Suc m)
    with Cons [of m] show ?thesis
      by (auto simp: HasPrefix_def leadingZeros_def)
  qed
qed

lemma Repeat_zeros:
  "0 \<le> sint d \<Longrightarrow> Repeat ''0'' d = Inr (replicate (nat (sint d)) (CHR ''0''))"
proof -
  have "concat (replicate n ''0'') = replicate n (CHR ''0'')" for n
    by (induction n) simp_all
  then show "0 \<le> sint d \<Longrightarrow> ?thesis" by (simp add: Repeat_def)
qed

lemma HasPrefix_iff_append: "HasPrefix s p = (\<exists>r. s = p @ r)"
  unfolding HasPrefix_def
  by (metis append_eq_conv_conj append_take_drop_id length_append le_add1)

lemma parse_not_digit:
  "\<not> isDigit c \<Longrightarrow> ParseRFC3339Nano (c # r) = None"
  by (cases r) (simp_all add: ParseRFC3339Nano_def)

lemma verifyPoW_stale:
  "sint (TimeWindow (config s)) < sint (Since now ct) \<Longrightarrow>
     verifyPoW s now c n ct st d = ([(Warn, ''Timestamp expired'')], Inr False)"
  by (simp add: verifyPoW_def)

lemma verifyPoW_fresh:
  "sint (Since now ct) \<le> sint (TimeWindow (config s)) \<Longrightarrow> 0 \<le> sint d \<Longrightarrow>
     verifyPoW s now c n ct st d
     = ([(Debug, ''Verifying PoW''), (Debug, ''Computed hash'')],
        Inr (nat (sint d) \<le> leadingZeros (EncodeToString (Sum256 (c @ n @ FormatRFC3339Nano st)))))"
  by (simp add: verifyPoW_def Let_def Repeat_zeros HasPrefix_zeros)

text \<open>\<open>handleConnection\<close> with the values of the session named.\<close>

lemma handleConnection_unfold:
  "handleConnection s conn =
     (let s3 = s\<lparr>clientLoad := clientLoad s + 1 + loadChangeBefore conn + loadChangeAfter conn\<rparr>;
          finish = (\<lambda>w l p. \<lparr>written = w, logged = (Info, ''Accepted connection'') # l,
                             panicked = p, server = decrementClientLoad s3\<rparr>);
          message = sendChallenge (challengeOf conn) (issuedTime conn) (difficultyOf s conn)
      in if \<not> challengeWritten conn
         then finish [message] [(Error, ''Failed to send challenge'')] None
         else case receiveResponse (received conn) of
           Inl e \<Rightarrow> finish [message] [(Error, ''Failed to receive response'')] None
         | Inr (nonce, clientTimestamp) \<Rightarrow>
             (case verifyPoW s (verifyTime conn) (challengeOf conn) nonce
                     clientTimestamp (issuedTime conn) (difficultyOf s conn) of
                (l, Inl p) \<Rightarrow> finish [message] l (Some p)
              | (l, Inr True) \<Rightarrow>
                  (case getRandomQuote s (quoteDraw conn) of
                     Inl p \<Rightarrow> finish [message] l (Some p)
                   | Inr quote \<Rightarrow>
                       finish [message, sendQuote quote]
                         (l @ [if replyWritten conn then (Info, ''Quote sent successfully'')
                               else (Error, ''Failed to send quote'')]) None)
              | (l, Inr False) \<Rightarrow>
                  finish [message, sendError ''Invalid proof of work.'']
                    (l @ (if replyWritten conn then [] else [(Error, ''send error failed:'')])
                       @ [(Warn, ''Invalid PoW attempt'')]) None))"
proof -
  have v: "verifyPoW (s\<lparr>clientLoad := x\<rparr>) = verifyPoW s" for x
    by (intro ext) (simp add: verifyPoW_def)
  have q: "getRandomQuote (s\<lparr>clientLoad := x\<rparr>) = getRandomQuote s" for x
    by (intro ext) (simp add: getRandomQuote_def)
  show ?thesis
    unfolding handleConnection_def Let_def challengeOf_def issuedTime_def verifyTime_def
      difficultyOf_def incrementClientLoad_def
    by (simp add: v q add.assoc split: sum.splits prod.splits bool.splits)
qed

lemma Itoa_of_nat: "int m < 2 ^ 63 \<Longrightarrow> Itoa (of_nat m) = digits (int m)"
proof -
  assume "int m < 2 ^ 63"
  then have "sint (word_of_int (int m) :: 64 word) = int m"
    by (intro sint_word_of_int_64) simp_all
  then show ?thesis by (simp add: Itoa_def)
qed

lemma solveLoop_skip:
  assumes "\<And>m. j \<le> m \<Longrightarrow> m < n \<Longrightarrow>
             \<not> ctx m \<and> \<not> HasPrefix (EncodeToString (Sum256
                 (challenge @ Itoa (of_nat m) @ FormatRFC3339Nano ts))) p"
    and "j \<le> n"
  shows "solveLoop ctx challenge ts p j (of_nat j) = solveLoop ctx challenge ts p n (of_nat n)"
  using assms(2,1)
proof (induction rule: inc_induct)
  case base
  show ?case ..
next
  case (step m)
  have "solveLoop ctx challenge ts p m (of_nat m) = solveLoop ctx challenge ts p (Suc m) (of_nat m + 1)"
    using step.prems [of m] step.hyps by (subst solveLoop.simps) simp
  also have "\<dots> = solveLoop ctx challenge ts p n (of_nat n)"
    using step.IH step.prems by (simp add: add.commute)
  finally show ?case .
qed

subsection \<open>Evaluations of the worked example\<close>

lemma sha256_abc:
  "EncodeToString (Sum256 ''abc'')
   = ''ba7816bf8f01cfea414140de5dae2223b00361a396177a9cb410ff61f20015ad''"
  by code_simp

lemma sha256_two_blocks:
  "EncodeToString (Sum256 ''abcdbcdecdefdefgefghfghighijhijkijkljklmklmnlmnomnopnopq'')
   = ''248d6a61d20638b8e5c026930c3e6039a33ce45964ff2167f6ecedd419db06c1''"
  by code_simp

lemma generateChallenge_example: "generateChallenge (\<lambda>i. i) = exampleToken"
  by code_simp

lemma format_example:
  "FormatRFC3339Nano \<lparr>instant = 63839664000000000000, zone = 0\<rparr> = ''2024-01-01T00:00:00Z''"
  by code_simp

lemma digest_26718:
  "EncodeToString (Sum256 ''abcdefghijklmnopqrstuvwxyzABCDEFGHIJKLMNOPQRSTUVWXYZ0123456789ab267182024-01-01T00:00:00Z'')
   = ''00007f31b07dc7dc33b57d5e6aa3f9218a723ab8f7814a39a09845ef8a0e284e''"
  by code_simp

lemma digest_0:
  "EncodeToString (Sum256 ''abcdefghijklmnopqrstuvwxyzABCDEFGHIJKLMNOPQRSTUVWXYZ0123456789ab02024-01-01T00:00:00Z'')
   = ''bacf0c44a54aee6ef333d51e3e08d237dc59ebfbe165a2077dc45933bb7530b0''"
  by code_simp

lemma receive_stale_26718:
  "receiveResponse (Some (''Nonce:26718;Timestamp:2023-12-31T23:55:09Z'' @ [CHR 0x0A]))
   = Inr (''26718'', \<lparr>instant = 63839663709000000000, zone = 0\<rparr>)"
  by code_simp

lemma receive_fresh_0:
  "receiveResponse (Some (''Nonce:0;Timestamp:2024-01-01T00:00:09Z'' @ [CHR 0x0A]))
   = Inr (''0'', \<lparr>instant = 63839664009000000000, zone = 0\<rparr>)"
  by code_simp

lemma receive_fresh_26718:
  "receiveResponse (Some (''Nonce:26718;Timestamp:2024-01-01T00:00:09Z'' @ [CHR 0x0A]))
   = Inr (''26718'', \<lparr>instant = 63839664009000000000, zone = 0\<rparr>)"
  by code_simp

lemma receive_fresh_1222611:
  "receiveResponse (Some (''Nonce:1222611;Timestamp:2024-01-01T00:00:09Z'' @ [CHR 0x0A]))
   = Inr (''1222611'', \<lparr>instant = 63839664009000000000, zone = 0\<rparr>)"
  by code_simp

lemma digest_1222611:
  "EncodeToString (Sum256 ''abcdefghijklmnopqrstuvwxyzABCDEFGHIJKLMNOPQRSTUVWXYZ0123456789ab12226112024-01-01T00:00:00Z'')
   = ''00000443021c10ed7e0ec3670c5c7d8c32bf15e7c917e499ed913be75977df97''"
  by code_simp

lemma sendChallenge_example_5:
  "sendChallenge exampleToken \<lparr>instant = 63839664000000000000, zone = 0\<rparr> 5
   = ''Challenge:abcdefghijklmnopqrstuvwxyzABCDEFGHIJKLMNOPQRSTUVWXYZ0123456789ab;Timestamp:2024-01-01T00:00:00Z;Difficulty:5'' @ [CHR 0x0A]"
  by code_simp

lemma example_session_facts:
  "challengeOf (exampleConnection l) = exampleToken"
  "challengeOf ((exampleConnection l)\<lparr>loadChangeAfter := x\<rparr>) = exampleToken"
  "issuedTime (exampleConnection l) = \<lparr>instant = 63839664000000000000, zone = 0\<rparr>"
  "verifyTime (exampleConnection l) = \<lparr>instant = 63839664010000000000, zone = 0\<rparr>"
  "difficultyOf (NewServer readmeConfig) (exampleConnection l) = 4"
  "difficultyOf ((NewServer readmeConfig)\<lparr>clientLoad := 20\<rparr>) (exampleConnection l) = 5"
  "digestOf (exampleConnection l) n
     = EncodeToString (Sum256 (exampleToken @ n @ ''2024-01-01T00:00:00Z''))"
  by (simp_all add: challengeOf_def issuedTime_def verifyTime_def difficultyOf_def digestOf_def
      exampleConnection_def generateChallenge_example format_example adjustDifficulty_def
      NewServer_def readmeConfig_def maxDifficultyClientCount_def minDifficultyClientCount_def)

lemma receiveChallenge_negative:
  "receiveChallenge (Some (''Challenge:abcdefghijklmnopqrstuvwxyzABCDEFGHIJKLMNOPQRSTUVWXYZ0123456789ab;Timestamp:2024-01-01T00:00:00Z;Difficulty:-1'' @ [CHR 0x0A]))
   = Inr (''abcdefghijklmnopqrstuvwxyzABCDEFGHIJKLMNOPQRSTUVWXYZ0123456789ab'',
          \<lparr>instant = 63839664000000000000, zone = 0\<rparr>, - 1)"
  by code_simp

lemma format_example_1ns:
  "FormatRFC3339Nano \<lparr>instant = 63839664000000000001, zone = 0\<rparr>
   = ''2024-01-01T00:00:00.000000001Z''"
  by code_simp

lemma solver_digest_0:
  "EncodeToString (Sum256 ''abcdefghijklmnopqrstuvwxyzABCDEFGHIJKLMNOPQRSTUVWXYZ0123456789ab02024-01-01T00:00:00.000000001Z'')
   = ''812cc81593194dcebe17949b471a980d72a8ba23473f5e84565c26a3a07f9818''"
  by code_simp

lemma solver_digest_1:
  "EncodeToString (Sum256 ''abcdefghijklmnopqrstuvwxyzABCDEFGHIJKLMNOPQRSTUVWXYZ0123456789ab12024-01-01T00:00:00.000000001Z'')
   = ''a35708ef817a80642884f9b2b0ba83c0e4bef83d2d1d7d9b321c46279cc0ae11''"
  by code_simp

lemma solver_digest_2:
  "EncodeToString (Sum256 ''abcdefghijklmnopqrstuvwxyzABCDEFGHIJKLMNOPQRSTUVWXYZ0123456789ab22024-01-01T00:00:00.000000001Z'')
   = ''44c4dbe80a4435eeb3617e01d193c9f23dc47f57318e26c0345d092e187dddc0''"
  by code_simp

lemma solver_digest_3:
  "EncodeToString (Sum256 ''abcdefghijklmnopqrstuvwxyzABCDEFGHIJKLMNOPQRSTUVWXYZ0123456789ab32024-01-01T00:00:00.000000001Z'')
   = ''0023fb477215fbe7dc5f9cb350cff8f704336a3994e711a0629c8e1ec8864194''"
  by code_simp

lemma less_3_cases: "(\<forall>m<3. P m) = (P 0 \<and> P 1 \<and> P (2::nat))"
  by (auto simp: less_Suc_eq numeral_3_eq_3 numeral_2_eq_2)

section \<open>The difficulty policy\<close>

text \<open>
  Claim C4. The difficulty of a session is a three-tier step function of the load counter
  read at issuance: above 50 it is the configured maximum, above 20 and up to 50 it is the
  maximum minus one (in Go's 64-bit arithmetic), and up to 20 it is the configured minimum;
  the boundary loads 20 and 50 fall in the lower tier.
\<close>

theorem adjustDifficulty_tiers:
  "(50 < sint (clientLoad s) \<longrightarrow> adjustDifficulty s = MaxDifficulty (config s)) \<and>
   (20 < sint (clientLoad s) \<and> sint (clientLoad s) \<le> 50 \<longrightarrow>
      adjustDifficulty s = MaxDifficulty (config s) - 1) \<and>
   (sint (clientLoad s) \<le> 20 \<longrightarrow> adjustDifficulty s = MinDifficulty (config s)) \<and>
   (clientLoad s = 20 \<longrightarrow> adjustDifficulty s = MinDifficulty (config s)) \<and>
   (clientLoad s = 50 \<longrightarrow> adjustDifficulty s = MaxDifficulty (config s) - 1)"
  by (auto simp: adjustDifficulty_def maxDifficultyClientCount_def minDifficultyClientCount_def)

theorem adjustDifficulty_tiers_witness:
  "sint (0 :: go_int) \<le> 20 \<and> adjustDifficulty ((NewServer readmeConfig)\<lparr>clientLoad := 0\<rparr>) = 4 \<and>
   adjustDifficulty ((NewServer readmeConfig)\<lparr>clientLoad := 20\<rparr>) = 4 \<and>
   20 < sint (21 :: go_int) \<and> sint (21 :: go_int) \<le> 50 \<and>
   adjustDifficulty ((NewServer readmeConfig)\<lparr>clientLoad := 21\<rparr>) = 5 \<and>
   adjustDifficulty ((NewServer readmeConfig)\<lparr>clientLoad := 50\<rparr>) = 5 \<and>
   50 < sint (51 :: go_int) \<and>
   adjustDifficulty ((NewServer readmeConfig)\<lparr>clientLoad := 51\<rparr>) = 6"
  using adjustDifficulty_tiers [of "(NewServer readmeConfig)\<lparr>clientLoad := 0\<rparr>"]
    adjustDifficulty_tiers [of "(NewServer readmeConfig)\<lparr>clientLoad := 20\<rparr>"]
    adjustDifficulty_tiers [of "(NewServer readmeConfig)\<lparr>clientLoad := 21\<rparr>"]
    adjustDifficulty_tiers [of "(NewServer readmeConfig)\<lparr>clientLoad := 50\<rparr>"]
    adjustDifficulty_tiers [of "(NewServer readmeConfig)\<lparr>clientLoad := 51\<rparr>"]
  by (simp add: NewServer_def readmeConfig_def)

section \<open>The difficulty check\<close>

text \<open>
  Claim C2. For a difficulty \<open>d\<close> from 0 to 64, the check that \<open>verifyPoW\<close> and
  \<open>solvePoW\<close> both make, \<open>strings.HasPrefix(hashHex, strings.Repeat("0", d))\<close>, builds
  the prefix of \<open>d\<close> zeros without panic, and is true exactly if the digest has \<open>d\<close> or
  more leading \<open>0\<close> characters, that is, exactly if the digest starts with \<open>d\<close> literal
  \<open>0\<close> characters.
\<close>

theorem difficulty_check_leading_zeros:
  assumes "0 \<le> sint d" and "sint d \<le> 64"
  shows "Repeat ''0'' d = Inr (replicate (nat (sint d)) (CHR ''0'')) \<and>
         HasPrefix h (replicate (nat (sint d)) (CHR ''0'')) = (nat (sint d) \<le> leadingZeros h) \<and>
         HasPrefix h (replicate (nat (sint d)) (CHR ''0''))
           = (\<exists>r. h = replicate (nat (sint d)) (CHR ''0'') @ r)"
proof -
  have "HasPrefix h p = (\<exists>r. h = p @ r)" for p
    unfolding HasPrefix_def
    by (metis append_eq_conv_conj append_take_drop_id length_append le_add1)
  then have "HasPrefix h (replicate (nat (sint d)) (CHR ''0''))
           = (\<exists>r. h = replicate (nat (sint d)) (CHR ''0'') @ r)" .
  moreover note Repeat_zeros [OF assms(1)] HasPrefix_zeros [of h "nat (sint d)"]
  ultimately show ?thesis by blast
qed

theorem difficulty_check_leading_zeros_witness:
  "0 \<le> sint (2 :: go_int) \<and> sint (2 :: go_int) \<le> 64 \<and>
   Repeat ''0'' 2 = Inr ''00'' \<and> HasPrefix ''00ab'' ''00'' \<and> HasPrefix ''000a'' ''00'' \<and>
   \<not> HasPrefix ''0ab0'' ''00''"
proof -
  have d: "0 \<le> sint (2 :: go_int)" "sint (2 :: go_int) \<le> 64" by simp_all
  have r: "replicate (nat (sint (2 :: go_int))) (CHR ''0'') = ''00''"
    by (simp add: numeral_2_eq_2)
  show ?thesis
    using d difficulty_check_leading_zeros [OF d, of "''00ab''"]
      difficulty_check_leading_zeros [OF d, of "''000a''"]
      difficulty_check_leading_zeros [OF d, of "''0ab0''"]
    unfolding r by (simp add: leadingZeros_def)
qed

section \<open>Verification\<close>

text \<open>
  Claim C1. For a difficulty that is not negative, \<open>verifyPoW\<close> accepts exactly if both
  hold: the lower-case hexadecimal SHA-256 digest of challenge, nonce and the server's
  timestamp in RFC 3339 form starts with \<open>difficulty\<close> zeros, and the age of the client's
  timestamp, as \<open>time.Since\<close> measures it, is at most \<open>TimeWindow\<close>; if either fails it
  rejects. (\<open>Since_exact\<close> says that this age is the exact difference of the two
  instants as long as \<open>TimeWindow\<close> is not the largest duration.) The witness runs the
  README's window of five minutes: a correct digest with a timestamp one second old is
  accepted, the same with a timestamp five minutes and one second old is rejected, and a
  wrong digest with a fresh timestamp is rejected.
\<close>

theorem verifyPoW_accepted_iff:
  assumes "0 \<le> sint difficulty"
  shows "snd (verifyPoW s now challenge nonce clientTimestamp serverTimestamp difficulty)
         = Inr (nat (sint difficulty)
                  \<le> leadingZeros (EncodeToString (Sum256
                        (challenge @ nonce @ FormatRFC3339Nano serverTimestamp)))
                \<and> sint (Since now clientTimestamp) \<le> sint (TimeWindow (config s)))"
  using assms by (simp add: verifyPoW_def Let_def Repeat_zeros HasPrefix_zeros)

theorem verifyPoW_accepted_iff_witness:
  "0 \<le> sint (4 :: go_int) \<and>
   snd (verifyPoW (NewServer readmeConfig) \<lparr>instant = 63839664010000000000, zone = 0\<rparr>
          exampleToken ''26718'' \<lparr>instant = 63839664009000000000, zone = 0\<rparr>
          \<lparr>instant = 63839664000000000000, zone = 0\<rparr> 4) = Inr True \<and>
   snd (verifyPoW (NewServer readmeConfig) \<lparr>instant = 63839664010000000000, zone = 0\<rparr>
          exampleToken ''26718'' \<lparr>instant = 63839663709000000000, zone = 0\<rparr>
          \<lparr>instant = 63839664000000000000, zone = 0\<rparr> 4) = Inr False \<and>
   snd (verifyPoW (NewServer readmeConfig) \<lparr>instant = 63839664010000000000, zone = 0\<rparr>
          exampleToken ''0'' \<lparr>instant = 63839664009000000000, zone = 0\<rparr>
          \<lparr>instant = 63839664000000000000, zone = 0\<rparr> 4) = Inr False"
proof -
  have d: "0 \<le> sint (4 :: go_int)" by simp
  show ?thesis
    using d
      verifyPoW_accepted_iff [OF d, of "NewServer readmeConfig"
        "\<lparr>instant = 63839664010000000000, zone = 0\<rparr>" exampleToken "''26718''"
        "\<lparr>instant = 63839664009000000000, zone = 0\<rparr>"
        "\<lparr>instant = 63839664000000000000, zone = 0\<rparr>"]
      verifyPoW_accepted_iff [OF d, of "NewServer readmeConfig"
        "\<lparr>instant = 63839664010000000000, zone = 0\<rparr>" exampleToken "''26718''"
        "\<lparr>instant = 63839663709000000000, zone = 0\<rparr>"
        "\<lparr>instant = 63839664000000000000, zone = 0\<rparr>"]
      verifyPoW_accepted_iff [OF d, of "NewServer readmeConfig"
        "\<lparr>instant = 63839664010000000000, zone = 0\<rparr>" exampleToken "''0''"
        "\<lparr>instant = 63839664009000000000, zone = 0\<rparr>"
        "\<lparr>instant = 63839664000000000000, zone = 0\<rparr>"]
    by (simp add: format_example exampleToken_def digest_26718 digest_0 leadingZeros_def
        Since_def sint_Sub maxDuration_def minDuration_def NewServer_def readmeConfig_def)
qed

text \<open>
  Claim C10. When the client's timestamp is at or after the clock reading of the
  verification, and the window is not negative, the freshness check passes however far in
  the future the timestamp lies: nothing is logged as expired and the digest alone decides.
  The witness is a timestamp more than three hundred years ahead.
\<close>

theorem verifyPoW_future_timestamp:
  assumes "instant now \<le> instant clientTimestamp"
    and "0 \<le> sint (TimeWindow (config s))"
  shows "sint (Since now clientTimestamp) \<le> sint (TimeWindow (config s)) \<and>
         (Warn, ''Timestamp expired'')
           \<notin> set (fst (verifyPoW s now challenge nonce clientTimestamp serverTimestamp difficulty)) \<and>
         (0 \<le> sint difficulty \<longrightarrow>
            snd (verifyPoW s now challenge nonce clientTimestamp serverTimestamp difficulty)
            = Inr (nat (sint difficulty)
                     \<le> leadingZeros (EncodeToString (Sum256
                           (challenge @ nonce @ FormatRFC3339Nano serverTimestamp)))))"
proof -
  have fresh: "sint (Since now clientTimestamp) \<le> sint (TimeWindow (config s))"
    using assms by (simp add: Since_def sint_Sub maxDuration_def minDuration_def)
  then show ?thesis
    by (simp add: verifyPoW_def Let_def Repeat_zeros HasPrefix_zeros)
qed

theorem verifyPoW_future_timestamp_witness:
  "instant \<lparr>instant = 63839664010000000000, zone = 0\<rparr>
     \<le> instant \<lparr>instant = 73839664010000000000, zone = 0\<rparr> \<and>
   0 \<le> sint (TimeWindow (config (NewServer readmeConfig))) \<and>
   snd (verifyPoW (NewServer readmeConfig) \<lparr>instant = 63839664010000000000, zone = 0\<rparr>
          exampleToken ''26718'' \<lparr>instant = 73839664010000000000, zone = 0\<rparr>
          \<lparr>instant = 63839664000000000000, zone = 0\<rparr> 4) = Inr True"
proof -
  have a: "instant \<lparr>instant = 63839664010000000000, zone = 0\<rparr>
     \<le> instant \<lparr>instant = 73839664010000000000, zone = 0\<rparr>" by simp
  have b: "0 \<le> sint (TimeWindow (config (NewServer readmeConfig)))"
    by (simp add: NewServer_def readmeConfig_def)
  show ?thesis
    using a b verifyPoW_future_timestamp [OF a b, of exampleToken "''26718''"
        "\<lparr>instant = 63839664000000000000, zone = 0\<rparr>" 4]
    by (simp add: format_example exampleToken_def digest_26718 leadingZeros_def)
qed

section \<open>Sessions\<close>

text \<open>
  Claim C7. Take two sessions whose verification is rejected, the first because the
  client's timestamp is older than the window, the second with a fresh timestamp because
  the digest misses the difficulty. What the server writes after the challenge is in both
  the one line \<open>Error:Invalid proof of work.\<close>, byte for byte the same; the reason shows
  only in the log, where the first session has the entry \<open>Timestamp expired\<close> and the
  second has not.
\<close>

theorem rejections_indistinguishable:
  assumes "challengeWritten c1" and "receiveResponse (received c1) = Inr (n1, t1)"
    and "sint (TimeWindow (config s1)) < sint (Since (verifyTime c1) t1)"
    and "challengeWritten c2" and "receiveResponse (received c2) = Inr (n2, t2)"
    and "sint (Since (verifyTime c2) t2) \<le> sint (TimeWindow (config s2))"
    and "0 \<le> sint (difficultyOf s2 c2)"
    and "leadingZeros (digestOf c2 n2) < nat (sint (difficultyOf s2 c2))"
  shows "tl (written (handleConnection s1 c1)) = [''Error:Invalid proof of work.'' @ [CHR 0x0A]] \<and>
         tl (written (handleConnection s2 c2)) = tl (written (handleConnection s1 c1)) \<and>
         (Warn, ''Timestamp expired'') \<in> set (logged (handleConnection s1 c1)) \<and>
         (Warn, ''Timestamp expired'') \<notin> set (logged (handleConnection s2 c2))"
proof -
  have 1: "verifyPoW s1 (verifyTime c1) (challengeOf c1) n1 t1 (issuedTime c1) (difficultyOf s1 c1)
           = ([(Warn, ''Timestamp expired'')], Inr False)"
    using assms(3) by (rule verifyPoW_stale)
  have 2: "verifyPoW s2 (verifyTime c2) (challengeOf c2) n2 t2 (issuedTime c2) (difficultyOf s2 c2)
           = ([(Debug, ''Verifying PoW''), (Debug, ''Computed hash'')], Inr False)"
    using assms(8) verifyPoW_fresh [OF assms(6) assms(7)] by (simp add: digestOf_def)
  have o1: "written (handleConnection s1 c1)
              = [sendChallenge (challengeOf c1) (issuedTime c1) (difficultyOf s1 c1),
                 sendError ''Invalid proof of work.'']"
    and l1: "(Warn, ''Timestamp expired'') \<in> set (logged (handleConnection s1 c1))"
    using assms(1,2) by (simp_all add: handleConnection_unfold Let_def 1)
  have o2: "written (handleConnection s2 c2)
              = [sendChallenge (challengeOf c2) (issuedTime c2) (difficultyOf s2 c2),
                 sendError ''Invalid proof of work.'']"
    and l2: "(Warn, ''Timestamp expired'') \<notin> set (logged (handleConnection s2 c2))"
    using assms(4,5) by (simp_all add: handleConnection_unfold Let_def 2)
  show ?thesis
    using l1 l2 by (simp add: o1 o2 sendError_def)
qed

theorem rejections_indistinguishable_witness:
  "receiveResponse (received (exampleConnection
       (''Nonce:26718;Timestamp:2023-12-31T23:55:09Z'' @ [CHR 0x0A])))
     = Inr (''26718'', \<lparr>instant = 63839663709000000000, zone = 0\<rparr>) \<and>
   receiveResponse (received (exampleConnection
       (''Nonce:0;Timestamp:2024-01-01T00:00:09Z'' @ [CHR 0x0A])))
     = Inr (''0'', \<lparr>instant = 63839664009000000000, zone = 0\<rparr>) \<and>
   tl (written (handleConnection (NewServer readmeConfig)
        (exampleConnection (''Nonce:26718;Timestamp:2023-12-31T23:55:09Z'' @ [CHR 0x0A]))))
     = [''Error:Invalid proof of work.'' @ [CHR 0x0A]] \<and>
   tl (written (handleConnection (NewServer readmeConfig)
        (exampleConnection (''Nonce:0;Timestamp:2024-01-01T00:00:09Z'' @ [CHR 0x0A]))))
     = [''Error:Invalid proof of work.'' @ [CHR 0x0A]]"
proof -
  let ?s = "NewServer readmeConfig"
  let ?c1 = "exampleConnection (''Nonce:26718;Timestamp:2023-12-31T23:55:09Z'' @ [CHR 0x0A])"
  let ?c2 = "exampleConnection (''Nonce:0;Timestamp:2024-01-01T00:00:09Z'' @ [CHR 0x0A])"
  have w: "challengeWritten ?c1" "challengeWritten ?c2"
    by (simp_all add: exampleConnection_def)
  have r1: "receiveResponse (received ?c1)
              = Inr (''26718'', \<lparr>instant = 63839663709000000000, zone = 0\<rparr>)"
    using receive_stale_26718 by (simp add: exampleConnection_def)
  have r2: "receiveResponse (received ?c2)
              = Inr (''0'', \<lparr>instant = 63839664009000000000, zone = 0\<rparr>)"
    using receive_fresh_0 by (simp add: exampleConnection_def)
  have stale: "sint (TimeWindow (config ?s))
      < sint (Since (verifyTime ?c1) \<lparr>instant = 63839663709000000000, zone = 0\<rparr>)"
    by (simp add: example_session_facts Since_def sint_Sub maxDuration_def minDuration_def
        NewServer_def readmeConfig_def)
  have fresh: "sint (Since (verifyTime ?c2) \<lparr>instant = 63839664009000000000, zone = 0\<rparr>)
      \<le> sint (TimeWindow (config ?s))"
    by (simp add: example_session_facts Since_def sint_Sub maxDuration_def minDuration_def
        NewServer_def readmeConfig_def)
  have d: "0 \<le> sint (difficultyOf ?s ?c2)"
    by (simp add: example_session_facts)
  have z: "leadingZeros (digestOf ?c2 ''0'') < nat (sint (difficultyOf ?s ?c2))"
    by (simp add: example_session_facts exampleToken_def digest_0 leadingZeros_def)
  from rejections_indistinguishable [OF w(1) r1 stale w(2) r2 fresh d z] r1 r2
  show ?thesis by simp
qed

text \<open>
  Claim C8. The difficulty of a session is the value of the difficulty policy on the load
  counter read at issuance, \<open>difficultyOf\<close>: the challenge frame carries it, and
  verification uses the same value. Whatever the other sessions do to the load counter
  afterwards (\<open>loadChangeAfter\<close>) changes nothing of what the session writes, logs or
  panics with. In \<open>handleConnection\<close> the policy is called in one place, before the
  challenge is sent. In the witness the load is 21 at issuance (difficulty 5) and 0 at
  verification (where the policy would say 4): a digest with four zeros is rejected and one
  with five is accepted.
\<close>

theorem difficulty_fixed_at_issuance:
  "hd (written (handleConnection s conn))
     = sendChallenge (challengeOf conn) (issuedTime conn) (difficultyOf s conn) \<and>
   written (handleConnection s (conn\<lparr>loadChangeAfter := x\<rparr>)) = written (handleConnection s conn) \<and>
   logged (handleConnection s (conn\<lparr>loadChangeAfter := x\<rparr>)) = logged (handleConnection s conn) \<and>
   panicked (handleConnection s (conn\<lparr>loadChangeAfter := x\<rparr>)) = panicked (handleConnection s conn) \<and>
   (challengeWritten conn \<and> receiveResponse (received conn) = Inr (nonce, t)
      \<and> 0 \<le> sint (difficultyOf s conn) \<and> quotes s \<noteq> [] \<longrightarrow>
    written (handleConnection s conn)
      = [sendChallenge (challengeOf conn) (issuedTime conn) (difficultyOf s conn),
         if nat (sint (difficultyOf s conn)) \<le> leadingZeros (digestOf conn nonce)
            \<and> sint (Since (verifyTime conn) t) \<le> sint (TimeWindow (config s))
         then sendQuote (quotes s ! (quoteDraw conn mod length (quotes s)))
         else sendError ''Invalid proof of work.''])"
proof -
  let ?c = "conn\<lparr>loadChangeAfter := x\<rparr>"
  have same: "challengeOf ?c = challengeOf conn" "issuedTime ?c = issuedTime conn"
    "verifyTime ?c = verifyTime conn" "difficultyOf s ?c = difficultyOf s conn"
    by (simp_all add: challengeOf_def issuedTime_def verifyTime_def difficultyOf_def)
  have a: "hd (written (handleConnection s conn))
     = sendChallenge (challengeOf conn) (issuedTime conn) (difficultyOf s conn)"
    by (simp add: handleConnection_unfold Let_def split: sum.splits prod.splits bool.splits)
  have b: "written (handleConnection s ?c) = written (handleConnection s conn)"
    "logged (handleConnection s ?c) = logged (handleConnection s conn)"
    "panicked (handleConnection s ?c) = panicked (handleConnection s conn)"
    by (simp_all add: handleConnection_unfold [of s ?c] handleConnection_unfold [of s conn]
        same Let_def split: sum.splits prod.splits bool.splits)
  have c: "written (handleConnection s conn)
      = [sendChallenge (challengeOf conn) (issuedTime conn) (difficultyOf s conn),
         if nat (sint (difficultyOf s conn)) \<le> leadingZeros (digestOf conn nonce)
            \<and> sint (Since (verifyTime conn) t) \<le> sint (TimeWindow (config s))
         then sendQuote (quotes s ! (quoteDraw conn mod length (quotes s)))
         else sendError ''Invalid proof of work.'']"
    if h: "challengeWritten conn" "receiveResponse (received conn) = Inr (nonce, t)"
      "0 \<le> sint (difficultyOf s conn)" "quotes s \<noteq> []"
  proof (cases "sint (Since (verifyTime conn) t) \<le> sint (TimeWindow (config s))")
    case True
    show ?thesis
      using h True
      by (simp add: handleConnection_unfold Let_def verifyPoW_fresh [OF True h(3)]
          digestOf_def getRandomQuote_def)
  next
    case False
    then have "sint (TimeWindow (config s)) < sint (Since (verifyTime conn) t)" by simp
    from verifyPoW_stale [OF this] show ?thesis
      using h False by (simp add: handleConnection_unfold Let_def)
  qed
  from a b c show ?thesis by blast
qed

theorem difficulty_fixed_at_issuance_witness:
  "difficultyOf ((NewServer readmeConfig)\<lparr>clientLoad := 20\<rparr>)
     (exampleConnection (''Nonce:26718;Timestamp:2024-01-01T00:00:09Z'' @ [CHR 0x0A])) = 5 \<and>
   written (handleConnection ((NewServer readmeConfig)\<lparr>clientLoad := 20\<rparr>)
     ((exampleConnection (''Nonce:26718;Timestamp:2024-01-01T00:00:09Z'' @ [CHR 0x0A]))
        \<lparr>loadChangeAfter := - 21\<rparr>))
   = [''Challenge:abcdefghijklmnopqrstuvwxyzABCDEFGHIJKLMNOPQRSTUVWXYZ0123456789ab;Timestamp:2024-01-01T00:00:00Z;Difficulty:5'' @ [CHR 0x0A],
      ''Error:Invalid proof of work.'' @ [CHR 0x0A]] \<and>
   written (handleConnection ((NewServer readmeConfig)\<lparr>clientLoad := 20\<rparr>)
     ((exampleConnection (''Nonce:1222611;Timestamp:2024-01-01T00:00:09Z'' @ [CHR 0x0A]))
        \<lparr>loadChangeAfter := - 21\<rparr>))
   = [''Challenge:abcdefghijklmnopqrstuvwxyzABCDEFGHIJKLMNOPQRSTUVWXYZ0123456789ab;Timestamp:2024-01-01T00:00:00Z;Difficulty:5'' @ [CHR 0x0A],
      ''Quote:That which does not kill us makes us stronger. - Friedrich Nietzsche'' @ [CHR 0x0A]]"
proof -
  let ?s = "(NewServer readmeConfig)\<lparr>clientLoad := 20\<rparr>"
  let ?c1 = "exampleConnection (''Nonce:26718;Timestamp:2024-01-01T00:00:09Z'' @ [CHR 0x0A])"
  let ?c2 = "exampleConnection (''Nonce:1222611;Timestamp:2024-01-01T00:00:09Z'' @ [CHR 0x0A])"
  let ?t = "\<lparr>instant = 63839664009000000000, zone = 0\<rparr>"
  have r1: "challengeWritten ?c1 \<and> receiveResponse (received ?c1) = Inr (''26718'', ?t)
            \<and> 0 \<le> sint (difficultyOf ?s ?c1) \<and> quotes ?s \<noteq> []"
  proof -
    have "receiveResponse (received ?c1) = Inr (''26718'', ?t)"
      using receive_fresh_26718 by (simp add: exampleConnection_def)
    moreover have "challengeWritten ?c1" by (simp add: exampleConnection_def)
    moreover have "0 \<le> sint (difficultyOf ?s ?c1)" by (simp add: example_session_facts)
    moreover have "quotes ?s \<noteq> []" by (simp add: NewServer_def)
    ultimately show ?thesis by blast
  qed
  have r2: "challengeWritten ?c2 \<and> receiveResponse (received ?c2) = Inr (''1222611'', ?t)
            \<and> 0 \<le> sint (difficultyOf ?s ?c2) \<and> quotes ?s \<noteq> []"
  proof -
    have "receiveResponse (received ?c2) = Inr (''1222611'', ?t)"
      using receive_fresh_1222611 by (simp add: exampleConnection_def)
    moreover have "challengeWritten ?c2" by (simp add: exampleConnection_def)
    moreover have "0 \<le> sint (difficultyOf ?s ?c2)" by (simp add: example_session_facts)
    moreover have "quotes ?s \<noteq> []" by (simp add: NewServer_def)
    ultimately show ?thesis by blast
  qed
  have fresh: "sint (Since \<lparr>instant = 63839664010000000000, zone = 0\<rparr> ?t)
      \<le> sint (TimeWindow (config ?s))"
    by (simp add: Since_def sint_Sub maxDuration_def minDuration_def NewServer_def readmeConfig_def)
  have q: "quotes ?s ! (quoteDraw ?c2 mod length (quotes ?s))
      = ''That which does not kill us makes us stronger. - Friedrich Nietzsche''"
    by (simp add: NewServer_def exampleConnection_def)
  show ?thesis
    using r1 r2 fresh q
      difficulty_fixed_at_issuance [of ?s ?c1 "- 21" "''26718''" ?t]
      difficulty_fixed_at_issuance [of ?s ?c2 "- 21" "''1222611''" ?t]
    by (simp add: example_session_facts exampleToken_def digest_26718 digest_1222611
        leadingZeros_def sendChallenge_example_5 [unfolded exampleToken_def]
        sendError_def sendQuote_def)
qed

section \<open>Decoding\<close>

text \<open>
  Claim C3, as the code has it. \<open>parseResponse\<close> succeeds exactly if the line has two
  fields separated by a semicolon and the second, with the prefix \<open>Timestamp:\<close> removed
  if it is there, parses as an RFC 3339 timestamp; the nonce is the first field with the
  prefix \<open>Nonce:\<close> removed if it is there. A wrong number of fields is the error
  \<open>invalid response format\<close>, and two fields in the wrong order are the error
  \<open>invalid timestamp format\<close>. The prefixes themselves are not required: the
  counterexample is a line without them that is decoded without error.
\<close>

theorem parseResponse_accepts_iff:
  "(parseResponse r = Inr (nonce, t))
     = (length (Split r (CHR '';'')) = 2
        \<and> nonce = TrimPrefix (Split r (CHR '';'') ! 0) ''Nonce:''
        \<and> ParseRFC3339Nano (TrimPrefix (Split r (CHR '';'') ! 1) ''Timestamp:'') = Some t) \<and>
   (length (Split r (CHR '';'')) \<noteq> 2 \<longrightarrow> parseResponse r = Inl InvalidResponseFormat) \<and>
   (length (Split r (CHR '';'')) = 2 \<and> HasPrefix (Split r (CHR '';'') ! 1) ''Nonce:''
      \<longrightarrow> parseResponse r = Inl InvalidTimestampFormat)"
proof -
  have swapped: "ParseRFC3339Nano (TrimPrefix p ''Timestamp:'') = None"
    if "HasPrefix p ''Nonce:''" for p
  proof -
    from that obtain q where p: "p = ''Nonce:'' @ q"
      by (auto simp: HasPrefix_iff_append)
    have "TrimPrefix p ''Timestamp:'' = p"
      by (simp add: p TrimPrefix_def HasPrefix_def)
    moreover have "ParseRFC3339Nano p = None"
      unfolding p by (simp add: parse_not_digit isDigit_def)
    ultimately show ?thesis by simp
  qed
  show ?thesis
    by (auto simp: parseResponse_def Let_def swapped split: option.splits)
qed

theorem parseResponse_accepts_iff_witness:
  "length (Split ''Nonce:5'' (CHR '';'')) \<noteq> 2 \<and>
   parseResponse ''Nonce:5'' = Inl InvalidResponseFormat \<and>
   length (Split ''Timestamp:2024-01-01T00:00:09Z;Nonce:5'' (CHR '';'')) = 2 \<and>
   HasPrefix (Split ''Timestamp:2024-01-01T00:00:09Z;Nonce:5'' (CHR '';'') ! 1) ''Nonce:'' \<and>
   parseResponse ''Timestamp:2024-01-01T00:00:09Z;Nonce:5'' = Inl InvalidTimestampFormat \<and>
   parseResponse ''Nonce:5;Timestamp:2024-01-01T00:00:09Z''
     = Inr (''5'', \<lparr>instant = 63839664009000000000, zone = 0\<rparr>)"
proof -
  have a: "length (Split ''Nonce:5'' (CHR '';'')) \<noteq> 2"
    by code_simp
  have b: "length (Split ''Timestamp:2024-01-01T00:00:09Z;Nonce:5'' (CHR '';'')) = 2 \<and>
     HasPrefix (Split ''Timestamp:2024-01-01T00:00:09Z;Nonce:5'' (CHR '';'') ! 1) ''Nonce:''"
    by code_simp
  have c: "length (Split ''Nonce:5;Timestamp:2024-01-01T00:00:09Z'' (CHR '';'')) = 2
        \<and> ''5'' = TrimPrefix (Split ''Nonce:5;Timestamp:2024-01-01T00:00:09Z'' (CHR '';'') ! 0) ''Nonce:''
        \<and> ParseRFC3339Nano (TrimPrefix (Split ''Nonce:5;Timestamp:2024-01-01T00:00:09Z'' (CHR '';'') ! 1) ''Timestamp:'')
            = Some \<lparr>instant = 63839664009000000000, zone = 0\<rparr>"
    by code_simp
  show ?thesis
    using a b c
      parseResponse_accepts_iff [of "''Nonce:5''"]
      parseResponse_accepts_iff [of "''Timestamp:2024-01-01T00:00:09Z;Nonce:5''"]
      parseResponse_accepts_iff [of "''Nonce:5;Timestamp:2024-01-01T00:00:09Z''" "''5''"
        "\<lparr>instant = 63839664009000000000, zone = 0\<rparr>"]
    by blast
qed

theorem lenient_prefix_counterexample:
  "\<not> strictSolutionFrame ''26718;2024-01-01T00:00:09Z'' \<and>
   parseResponse ''26718;2024-01-01T00:00:09Z''
     = Inr (''26718'', \<lparr>instant = 63839664009000000000, zone = 0\<rparr>)"
  by code_simp

section \<open>The solver\<close>

text \<open>
  Claim C6. Let the difficulty be not negative, let \<open>n\<close> be the smallest nonce, counted
  from 0, whose digest meets it, and let the context not be done at any of the first
  \<open>n + 1\<close> polls. Then \<open>solvePoW\<close> returns, and what it returns is \<open>n\<close> in decimal: it
  has tried 0, 1, 2, ... in this order. The \<open>MaxNonce\<close> of the configuration plays no
  part: in the witness it is 2 and the nonce returned is 3.
\<close>

theorem solvePoW_smallest_nonce:
  assumes "0 \<le> sint d" and "int n < 2 ^ 63"
    and "\<forall>k\<le>n. \<not> ctx k"
    and "nat (sint d) \<le> leadingZeros (EncodeToString (Sum256
           (challenge @ digits (int n) @ FormatRFC3339Nano ts)))"
    and "\<forall>m<n. leadingZeros (EncodeToString (Sum256
           (challenge @ digits (int m) @ FormatRFC3339Nano ts))) < nat (sint d)"
  shows "solvePoW c ctx challenge ts d = Some (Inr (digits (int n))) \<and>
         solvePoW (c\<lparr>MaxNonce := b\<rparr>) ctx challenge ts d = Some (Inr (digits (int n)))"
proof -
  let ?p = "replicate (nat (sint d)) (CHR ''0'')"
  have skip: "\<not> ctx m \<and> \<not> HasPrefix (EncodeToString (Sum256
                 (challenge @ Itoa (of_nat m) @ FormatRFC3339Nano ts))) ?p"
    if "m < n" for m
  proof -
    from that assms(2) have "int m < 2 ^ 63" by simp
    moreover from that assms(3) have "\<not> ctx m" by simp
    moreover from that assms(5) have "leadingZeros (EncodeToString (Sum256
           (challenge @ digits (int m) @ FormatRFC3339Nano ts))) < nat (sint d)" by blast
    ultimately show ?thesis
      by (simp add: Itoa_of_nat HasPrefix_zeros)
  qed
  have "solveLoop ctx challenge ts ?p 0 (of_nat 0) = solveLoop ctx challenge ts ?p n (of_nat n)"
    by (rule solveLoop_skip) (use skip in auto)
  also have "\<dots> = Some (Inr (digits (int n)))"
    using assms(2,3,4) by (subst solveLoop.simps) (simp add: Itoa_of_nat HasPrefix_zeros)
  finally have "solveLoop ctx challenge ts ?p 0 0 = Some (Inr (digits (int n)))" by simp
  then show ?thesis
    using assms(1) by (simp add: solvePoW_def Repeat_zeros)
qed

theorem solvePoW_smallest_nonce_witness:
  "0 \<le> sint (2 :: go_int) \<and> int 3 < 2 ^ 63 \<and> \<not> (\<lambda>k :: nat. 10 \<le> k) 3 \<and>
   solvePoW \<lparr>ServerAddress = ''localhost:9999'', ClientConnectionTimeout = 10000000000,
             MaxNonce = 2\<rparr>
     (\<lambda>k :: nat. 10 \<le> k) exampleToken \<lparr>instant = 63839664000000000001, zone = 0\<rparr> 2
   = Some (Inr ''3'')"
proof -
  let ?ts = "\<lparr>instant = 63839664000000000001, zone = 0\<rparr>"
  have d: "0 \<le> sint (2 :: go_int)" and n: "int 3 < 2 ^ 63"
    and c: "\<forall>k\<le>3. \<not> (\<lambda>k :: nat. 10 \<le> k) k"
    by simp_all
  have dg: "digits 0 = ''0''" "digits 1 = ''1''" "digits 2 = ''2''" "digits 3 = ''3''"
    by code_simp+
  have hit: "nat (sint (2 :: go_int)) \<le> leadingZeros (EncodeToString (Sum256
           (exampleToken @ digits (int 3) @ FormatRFC3339Nano ?ts)))"
    by (simp add: dg format_example_1ns exampleToken_def solver_digest_3 leadingZeros_def)
  have miss: "\<forall>m<3. leadingZeros (EncodeToString (Sum256
           (exampleToken @ digits (int m) @ FormatRFC3339Nano ?ts))) < nat (sint (2 :: go_int))"
    unfolding less_3_cases
    by (simp add: dg format_example_1ns exampleToken_def solver_digest_0 solver_digest_1
        solver_digest_2 leadingZeros_def)
  from solvePoW_smallest_nonce [OF d n c hit miss] d n c
  show ?thesis by (simp add: dg)
qed

text \<open>
  Claim C9. The challenge frame with \<open>Difficulty:-1\<close> is decoded without error by
  \<open>receiveChallenge\<close>, and \<open>solvePoW\<close> then panics in \<open>strings.Repeat\<close> with a negative
  count instead of returning an error, and so does \<open>Run\<close>.
\<close>

theorem negative_difficulty_panics:
  "receiveChallenge (Some (''Challenge:abcdefghijklmnopqrstuvwxyzABCDEFGHIJKLMNOPQRSTUVWXYZ0123456789ab;Timestamp:2024-01-01T00:00:00Z;Difficulty:-1'' @ [CHR 0x0A]))
     = Inr (exampleToken, \<lparr>instant = 63839664000000000000, zone = 0\<rparr>, - 1) \<and>
   solvePoW c ctx exampleToken \<lparr>instant = 63839664000000000000, zone = 0\<rparr> (- 1)
     = Some (Inl (Panic NegativeRepeatCount)) \<and>
   Run c \<lparr>challengeRead = Some (''Challenge:abcdefghijklmnopqrstuvwxyzABCDEFGHIJKLMNOPQRSTUVWXYZ0123456789ab;Timestamp:2024-01-01T00:00:00Z;Difficulty:-1'' @ [CHR 0x0A]),
           cancelled = ctx, solvedAt = now, responseWritten = w, answerRead = a\<rparr>
     = Some ([], Some (Panic NegativeRepeatCount))"
proof -
  have s: "solvePoW c ctx ch t (- 1) = Some (Inl (Panic NegativeRepeatCount))" for ch t
    by (simp add: solvePoW_def Repeat_def)
  show ?thesis
    using receiveChallenge_negative
    by (simp add: Run_def s exampleToken_def)
qed

end
